theory Spec2Isabelle
  imports Main
begin

section \<open>External data: XML elements and VTK containers\<close>

text \<open>
  \<open>vtkXMLDataElement\<close>: a named element with attributes and nested elements.
  \<open>FindNestedElementWithName\<close> returns the first directly nested element with the
  given name, or nothing (a null pointer in the C++).
\<close>

datatype vtkXMLDataElement =
  vtkXMLDataElement (Name: string) (Attributes: "(string \<times> string) list")
    (NestedElements: "vtkXMLDataElement list")

definition FindNestedElementWithName :: "vtkXMLDataElement \<Rightarrow> string \<Rightarrow> vtkXMLDataElement option" where
  "FindNestedElementWithName e n = find (\<lambda>c. Name c = n) (NestedElements e)"

text \<open>The VTK data-object type codes of \<open>vtkType.h\<close> that the factory switches on.\<close>

definition VTK_UNSTRUCTURED_GRID :: int where
  "VTK_UNSTRUCTURED_GRID = 4"

definition VTK_IMAGE_DATA :: int where
  "VTK_IMAGE_DATA = 6"

text \<open>
  A data array carries its scalar element type code and its number of components. A
  point-data or cell-data section is the list of its arrays; \<open>GetArray\<close> returns
  nothing (NULL) when the index is out of range.
\<close>

record vtkDataArray =
  DataType :: int
  NumberOfComponents :: int

type_synonym vtkFieldData = "vtkDataArray list"

definition GetArray :: "vtkFieldData \<Rightarrow> nat \<Rightarrow> vtkDataArray option" where
  "GetArray fd i = (if i < length fd then Some (fd ! i) else None)"

definition GetNumberOfArrays :: "vtkFieldData \<Rightarrow> int" where
  "GetNumberOfArrays fd = int (length fd)"

text \<open>
  A C++ \<open>int\<close> has 32 bits: the value it holds after an arithmetic result \<open>x\<close> is
  \<open>x\<close> wrapped into the range from \<open>-2147483648\<close> to \<open>2147483647\<close>.
\<close>

definition int32 :: "int \<Rightarrow> int" where
  "int32 x = (x + 2147483648) mod 4294967296 - 2147483648"

record vtkImageData =
  PointData :: "vtkFieldData option"
  Dimensions :: "int \<times> int \<times> int"
  NumberOfScalarComponents :: int

record vtkUnstructuredGrid =
  CellData :: "vtkFieldData option"

text \<open>
  Modelled from the spec: the readers \<open>RD_XMLImageReader\<close> and
  \<open>RD_XMLUnstructuredGridReader\<close> are declared in \<open>IO_XML.hpp\<close>, which lies
  outside the verified sources. The record holds what a reader exposes once \<open>Update()\<close> has
  run on a file: the container it produced (nothing for NULL), the descriptor element,
  and whether the descriptor asks for an initial pattern to be generated on loading.
  The \<open>type\<close> and \<open>name\<close> tags are read from the root element of the
  descriptor; a tag the element does not carry reads as the empty string.
\<close>

record 'c RD_XMLReader =
  GetOutput :: "'c option"
  GetRDElement :: vtkXMLDataElement
  ShouldGenerateInitialPatternWhenLoading :: bool

definition GetAttribute :: "vtkXMLDataElement \<Rightarrow> string \<Rightarrow> string option" where
  "GetAttribute e k = map_of (Attributes e) k"

definition GetType :: "'c RD_XMLReader \<Rightarrow> string" where
  "GetType reader = (case GetAttribute (GetRDElement reader) ''type'' of None \<Rightarrow> [] | Some t \<Rightarrow> t)"

definition GetName :: "'c RD_XMLReader \<Rightarrow> string" where
  "GetName reader = (case GetAttribute (GetRDElement reader) ''name'' of None \<Rightarrow> [] | Some n \<Rightarrow> n)"

text \<open>
  What the VTK readers report for one path: the output type that
  \<open>vtkXMLGenericDataObjectReader::ReadOutputType\<close> sniffs (\<open>-1\<close> when the file cannot
  be read), and the state each of the two readers reaches on it.
\<close>

record rd_file =
  OutputType :: int
  image_reader :: "vtkImageData RD_XMLReader"
  ugrid_reader :: "vtkUnstructuredGrid RD_XMLReader"

section \<open>Errors, the model classes and the state around a call\<close>

text \<open>Every failure of the factory is a C++ \<open>runtime_error\<close> carrying a message.\<close>

datatype error = runtime_error string

text \<open>
  The six concrete model classes, with their constructor arguments: the OpenCL variants
  are bound to a platform, a device and the scalar element type of the data; the
  Gray-Scott variants take no argument.
\<close>

datatype rd_class =
    GrayScottImageRD
  | FormulaOpenCLImageRD int int int
  | FullKernelOpenCLImageRD int int int
  | GrayScottMeshRD
  | FormulaOpenCLMeshRD int int int
  | FullKernelOpenCLMeshRD int int int

text \<open>The compute binding (platform, device) of a model class, if it has one.\<close>

fun opencl_binding :: "rd_class \<Rightarrow> (int \<times> int) option" where
  "opencl_binding GrayScottImageRD = None"
| "opencl_binding (FormulaOpenCLImageRD p d t) = Some (p, d)"
| "opencl_binding (FullKernelOpenCLImageRD p d t) = Some (p, d)"
| "opencl_binding GrayScottMeshRD = None"
| "opencl_binding (FormulaOpenCLMeshRD p d t) = Some (p, d)"
| "opencl_binding (FullKernelOpenCLMeshRD p d t) = Some (p, d)"

text \<open>
  Modelled from the spec: the class \<open>AbstractRD\<close> and its subclasses are declared in
  headers outside the verified sources. A model object has the attributes the
  spec lists: its class, dimensions, number of chemicals, originating file name and
  modified flag. Everything else (parameters, rule body, field data) is the opaque
  \<open>payload\<close>. \<open>dimensions\<close> and \<open>number_of_chemicals\<close> hold what was last passed to
  \<open>SetDimensions\<close> and \<open>SetNumberOfChemicals\<close>.
\<close>

record 'p AbstractRD =
  rd_class :: rd_class
  payload :: 'p
  dimensions :: "int \<times> int \<times> int"
  number_of_chemicals :: int
  filename :: string
  modified :: bool

text \<open>
  The calls the factory makes, in a ghost log that records their order. The log is not
  in the C++; it is what lets the order of the calls be stated.
\<close>

datatype call =
    Enter_CreateFromImageDataFile
  | Enter_CreateFromUnstructuredGridFile
  | Call_make_unique rd_class
  | Call_InitializeFromXML
  | Call_OverwriteFromXML
  | Call_SetDimensions int int int
  | Call_SetNumberOfChemicals int
  | Call_CopyFromImage
  | Call_CopyFromMesh
  | Call_GenerateInitialPattern
  | Call_SetFilename string
  | Call_SetModified bool

text \<open>
  The render-settings store maps a setting's name to its value, here the attributes it
  was given.
\<close>

type_synonym Properties = "string \<rightharpoonup> (string \<times> string) list"

text \<open>
  The state a call can change and that outlives a thrown exception: the numeric locale of
  the process, the caller's render-settings store and warning flag (both passed by
  reference), and the ghost log.
\<close>

record world =
  lc_numeric :: string
  render_settings :: Properties
  warn_to_update :: bool
  calls :: "call list"

text \<open>
  What the factory uses and does not define. \<open>files\<close> is the file system as the VTK
  readers see it; \<open>GetOpenCLInstallationHints\<close> is the guidance text of
  \<open>OpenCL_utils\<close>. The remaining fields are the opaque parts of the model classes:
  the payload and the modified flag a constructor starts with, and the hydration,
  copy-in and pattern generation steps, each of which either raises or yields the new
  payload and the new modified flag. Hydration also leaves a value in the caller's
  warning flag.
\<close>

record 'p collaborators =
  files :: "string \<Rightarrow> rd_file"
  GetOpenCLInstallationHints :: string
  construct :: "rd_class \<Rightarrow> 'p \<times> bool"
  initialize_from_xml ::
    "rd_class \<Rightarrow> vtkXMLDataElement \<Rightarrow> 'p \<Rightarrow> bool \<Rightarrow> (error + 'p \<times> bool) \<times> bool"
  copy_from_image :: "'p AbstractRD \<Rightarrow> vtkImageData \<Rightarrow> error + 'p \<times> bool"
  copy_from_mesh :: "'p AbstractRD \<Rightarrow> vtkUnstructuredGrid \<Rightarrow> error + 'p \<times> bool"
  generate_initial_pattern :: "'p AbstractRD \<Rightarrow> error + 'p \<times> bool"

section \<open>Exceptions over the state\<close>

text \<open>
  A step takes the state and returns an error or a value, with the state it leaves.
  \<open>throw\<close> raises, \<open>returns\<close> yields a value, \<open>and_then\<close> runs a second step
  on the value of the first unless the first raised.
\<close>

type_synonym 'a step = "world \<Rightarrow> (error + 'a) \<times> world"

definition throw :: "error \<Rightarrow> 'a step" where
  "throw e w = (Inl e, w)"

definition returns :: "'a \<Rightarrow> 'a step" where
  "returns x w = (Inr x, w)"

definition and_then :: "'a step \<Rightarrow> ('a \<Rightarrow> 'b step) \<Rightarrow> 'b step" where
  "and_then m f w = (case m w of (Inl e, w') \<Rightarrow> (Inl e, w') | (Inr x, w') \<Rightarrow> f x w')"

definition log_call :: "call \<Rightarrow> world \<Rightarrow> world" where
  "log_call c w = w\<lparr>calls := calls w @ [c]\<rparr>"

section \<open>The C library and the methods the factory calls\<close>

text \<open>
  \<open>setlocale(LC_NUMERIC, locale)\<close> with a locale that can be honoured: ISO C 7.11.1.1
  installs it and returns the string associated with the category for the new locale.
  Both locales the factory passes (\<open>"C"\<close>, and the string an earlier call returned) can
  be honoured.
\<close>

definition setlocale_LC_NUMERIC :: "string \<Rightarrow> world \<Rightarrow> string \<times> world" where
  "setlocale_LC_NUMERIC locale w = (locale, w\<lparr>lc_numeric := locale\<rparr>)"

definition ReadOutputType :: "'p collaborators \<Rightarrow> string \<Rightarrow> int" where
  "ReadOutputType env path = OutputType (files env path)"

text \<open>
  Modelled from the spec: the constructors of the model classes lie outside the verified
  sources. A model is created empty: no dimensions, no chemicals, no file name; its
  payload and its modified flag are what the constructor of the class leaves.
\<close>

definition make_unique :: "'p collaborators \<Rightarrow> rd_class \<Rightarrow> 'p AbstractRD step" where
  "make_unique env c w =
     (Inr \<lparr>rd_class = c, payload = fst (construct env c), dimensions = (0, 0, 0),
           number_of_chemicals = 0, filename = [], modified = snd (construct env c)\<rparr>,
      log_call (Call_make_unique c) w)"

text \<open>
  Modelled from the spec: the setters record the attribute they are given; hydration,
  copy-in and pattern generation act on the payload and the modified flag through the
  collaborators and may raise.
\<close>

definition InitializeFromXML ::
  "'p collaborators \<Rightarrow> vtkXMLDataElement \<Rightarrow> 'p AbstractRD \<Rightarrow> 'p AbstractRD step" where
  "InitializeFromXML env e m w =
     (let w1 = log_call Call_InitializeFromXML w;
          (r, warn) = initialize_from_xml env (rd_class m) e (payload m) (warn_to_update w1);
          w2 = w1\<lparr>warn_to_update := warn\<rparr>
      in case r of
           Inl err \<Rightarrow> (Inl err, w2)
         | Inr (p, dirty) \<Rightarrow> (Inr (m\<lparr>payload := p, modified := dirty\<rparr>), w2))"

definition SetDimensions :: "int \<Rightarrow> int \<Rightarrow> int \<Rightarrow> 'p AbstractRD \<Rightarrow> 'p AbstractRD step" where
  "SetDimensions x y z m w = (Inr (m\<lparr>dimensions := (x, y, z)\<rparr>), log_call (Call_SetDimensions x y z) w)"

definition SetNumberOfChemicals :: "int \<Rightarrow> 'p AbstractRD \<Rightarrow> 'p AbstractRD step" where
  "SetNumberOfChemicals n m w =
     (Inr (m\<lparr>number_of_chemicals := n\<rparr>), log_call (Call_SetNumberOfChemicals n) w)"

definition CopyFromImage :: "'p collaborators \<Rightarrow> vtkImageData \<Rightarrow> 'p AbstractRD \<Rightarrow> 'p AbstractRD step" where
  "CopyFromImage env img m w =
     (let w1 = log_call Call_CopyFromImage w
      in case copy_from_image env m img of
           Inl err \<Rightarrow> (Inl err, w1)
         | Inr (p, dirty) \<Rightarrow> (Inr (m\<lparr>payload := p, modified := dirty\<rparr>), w1))"

definition CopyFromMesh ::
  "'p collaborators \<Rightarrow> vtkUnstructuredGrid \<Rightarrow> 'p AbstractRD \<Rightarrow> 'p AbstractRD step" where
  "CopyFromMesh env ugrid m w =
     (let w1 = log_call Call_CopyFromMesh w
      in case copy_from_mesh env m ugrid of
           Inl err \<Rightarrow> (Inl err, w1)
         | Inr (p, dirty) \<Rightarrow> (Inr (m\<lparr>payload := p, modified := dirty\<rparr>), w1))"

definition GenerateInitialPattern :: "'p collaborators \<Rightarrow> 'p AbstractRD \<Rightarrow> 'p AbstractRD step" where
  "GenerateInitialPattern env m w =
     (let w1 = log_call Call_GenerateInitialPattern w
      in case generate_initial_pattern env m of
           Inl err \<Rightarrow> (Inl err, w1)
         | Inr (p, dirty) \<Rightarrow> (Inr (m\<lparr>payload := p, modified := dirty\<rparr>), w1))"

definition SetFilename :: "string \<Rightarrow> 'p AbstractRD \<Rightarrow> 'p AbstractRD step" where
  "SetFilename s m w = (Inr (m\<lparr>filename := s\<rparr>), log_call (Call_SetFilename s) w)"

definition SetModified :: "bool \<Rightarrow> 'p AbstractRD \<Rightarrow> 'p AbstractRD step" where
  "SetModified b m w = (Inr (m\<lparr>modified := b\<rparr>), log_call (Call_SetModified b) w)"

text \<open>
  Modelled from the spec: \<open>Properties::OverwriteFromXML\<close> is declared in
  \<open>Properties.hpp\<close>, outside the verified sources. The overlay is partial:
  each element nested in the overlay source names one setting and replaces its value;
  a setting the source does not name keeps its value.
\<close>

definition OverwriteFromXML :: "Properties \<Rightarrow> vtkXMLDataElement \<Rightarrow> Properties" where
  "OverwriteFromXML store e =
     fold (\<lambda>c s. s(Name c \<mapsto> Attributes c)) (NestedElements e) store"

text \<open>
  The optional render-settings step shared by both sub-constructors:
  \<^verbatim>\<open>if(xml_render_settings) render_settings.OverwriteFromXML(xml_render_settings);\<close>
\<close>

definition overlay_render_settings :: "vtkXMLDataElement \<Rightarrow> unit step" where
  "overlay_render_settings rd w =
     (case FindNestedElementWithName rd ''render_settings'' of
        None \<Rightarrow> (Inr (), w)
      | Some xml_render_settings \<Rightarrow>
          (Inr (), (log_call Call_OverwriteFromXML w)
            \<lparr>render_settings := OverwriteFromXML (render_settings w) xml_render_settings\<rparr>))"

section \<open>The factory\<close>

definition CreateFromImageDataFile ::
  "'p collaborators \<Rightarrow> string \<Rightarrow> bool \<Rightarrow> int \<Rightarrow> int \<Rightarrow> 'p AbstractRD step" where
  "CreateFromImageDataFile env path is_opencl_available opencl_platform opencl_device w0 =
     (let w = log_call Enter_CreateFromImageDataFile w0;
          reader = image_reader (files env path)
      in case GetOutput reader of
           None \<Rightarrow> throw (runtime_error ''Failed to read image.'') w
         | Some img \<Rightarrow>
        (case PointData img of
           None \<Rightarrow> throw (runtime_error ''Image has no point data.'') w
         | Some point_data \<Rightarrow>
        (case GetArray point_data 0 of
           None \<Rightarrow> throw (runtime_error ''No arrays in image point data.'') w
         | Some array0 \<Rightarrow>
        (let data_type = DataType array0;
             type = GetType reader;
             name = GetName reader
         in and_then
              (if type = ''inbuilt'' then
                 (if name = ''Gray-Scott'' then make_unique env GrayScottImageRD
                  else throw (runtime_error (''Unsupported inbuilt implementation: '' @ name)))
               else if type = ''formula'' then
                 (if \<not> is_opencl_available then
                    throw (runtime_error (GetOpenCLInstallationHints env))
                  else make_unique env
                         (FormulaOpenCLImageRD opencl_platform opencl_device data_type))
               else if type = ''kernel'' then
                 (if \<not> is_opencl_available then
                    throw (runtime_error (GetOpenCLInstallationHints env))
                  else make_unique env
                         (FullKernelOpenCLImageRD opencl_platform opencl_device data_type))
               else throw (runtime_error (''Unsupported rule type: '' @ type)))
           (\<lambda>image_system. and_then (InitializeFromXML env (GetRDElement reader) image_system)
           (\<lambda>image_system. and_then (overlay_render_settings (GetRDElement reader))
           (\<lambda>_.
              (case Dimensions img of (dim0, dim1, dim2) \<Rightarrow>
               let nc = int32 (NumberOfScalarComponents img * GetNumberOfArrays point_data)
               in and_then (SetDimensions dim0 dim1 dim2 image_system)
           (\<lambda>image_system. and_then (SetNumberOfChemicals nc image_system)
           (\<lambda>image_system. and_then (CopyFromImage env img image_system)
           (\<lambda>image_system.
              if ShouldGenerateInitialPatternWhenLoading reader
              then GenerateInitialPattern env image_system
              else returns image_system)))))))
           w))))"

definition CreateFromUnstructuredGridFile ::
  "'p collaborators \<Rightarrow> string \<Rightarrow> bool \<Rightarrow> int \<Rightarrow> int \<Rightarrow> 'p AbstractRD step" where
  "CreateFromUnstructuredGridFile env path is_opencl_available opencl_platform opencl_device w0 =
     (let w = log_call Enter_CreateFromUnstructuredGridFile w0;
          reader = ugrid_reader (files env path)
      in case GetOutput reader of
           None \<Rightarrow> throw (runtime_error ''Failed to read unstructured grid.'') w
         | Some ugrid \<Rightarrow>
        (case CellData ugrid of
           None \<Rightarrow> throw (runtime_error ''Unstructured grid has no cell data.'') w
         | Some cell_data \<Rightarrow>
        (case GetArray cell_data 0 of
           None \<Rightarrow> throw (runtime_error ''No arrays in unstructured grid cell data.'') w
         | Some array0 \<Rightarrow>
        (let data_type = DataType array0;
             type = GetType reader;
             name = GetName reader
         in and_then
              (if type = ''inbuilt'' then
                 (if name = ''Gray-Scott'' then make_unique env GrayScottMeshRD
                  else throw (runtime_error (''Unsupported inbuilt implementation: '' @ name)))
               else if type = ''formula'' then
                 (if \<not> is_opencl_available then
                    throw (runtime_error (GetOpenCLInstallationHints env))
                  else make_unique env
                         (FormulaOpenCLMeshRD opencl_platform opencl_device data_type))
               else if type = ''kernel'' then
                 (if \<not> is_opencl_available then
                    throw (runtime_error (GetOpenCLInstallationHints env))
                  else make_unique env
                         (FullKernelOpenCLMeshRD opencl_platform opencl_device data_type))
               else throw (runtime_error (''Unsupported rule type: '' @ type)))
           (\<lambda>mesh_system. and_then (InitializeFromXML env (GetRDElement reader) mesh_system)
           (\<lambda>mesh_system. and_then (CopyFromMesh env ugrid mesh_system)
           (\<lambda>mesh_system. and_then (overlay_render_settings (GetRDElement reader))
           (\<lambda>_.
              if ShouldGenerateInitialPatternWhenLoading reader
              then GenerateInitialPattern env mesh_system
              else returns mesh_system))))
           w))))"

definition CreateFromFile ::
  "'p collaborators \<Rightarrow> string \<Rightarrow> bool \<Rightarrow> int \<Rightarrow> int \<Rightarrow> 'p AbstractRD step" where
  "CreateFromFile env path is_opencl_available opencl_platform opencl_device w0 =
     (case setlocale_LC_NUMERIC ''C'' w0 of (old_locale, w) \<Rightarrow>
      let data_structure_type = ReadOutputType env path
      in and_then
           (if data_structure_type = VTK_IMAGE_DATA then
              CreateFromImageDataFile env path is_opencl_available opencl_platform opencl_device
            else if data_structure_type = VTK_UNSTRUCTURED_GRID then
              CreateFromUnstructuredGridFile env path is_opencl_available opencl_platform
                opencl_device
            else throw (runtime_error ''Unsupported data type or file read error''))
           (\<lambda>system w.
              case setlocale_LC_NUMERIC old_locale w of (_, w) \<Rightarrow>
                and_then (SetFilename path system) (SetModified False) w)
           w)"

section \<open>Conditions the properties speak of\<close>

text \<open>
  The steps of class \<open>c\<close> accept a file: run in the order and on the states in which
  the sub-constructor runs them, hydration, copy-in and (if the descriptor asks for it)
  pattern generation raise nothing. \<open>warn\<close> is the caller's warning flag on entry.
\<close>

definition image_steps_accept ::
  "'p collaborators \<Rightarrow> vtkImageData RD_XMLReader \<Rightarrow> vtkImageData \<Rightarrow> vtkFieldData \<Rightarrow>
     rd_class \<Rightarrow> bool \<Rightarrow> bool" where
  "image_steps_accept env reader img pd c warn =
     (case fst (initialize_from_xml env c (GetRDElement reader) (fst (construct env c)) warn) of
        Inl err \<Rightarrow> False
      | Inr (p1, dirty1) \<Rightarrow>
          (case copy_from_image env
                  \<lparr>rd_class = c, payload = p1, dimensions = Dimensions img,
                   number_of_chemicals =
                     int32 (NumberOfScalarComponents img * GetNumberOfArrays pd),
                   filename = [], modified = dirty1\<rparr> img of
             Inl err \<Rightarrow> False
           | Inr (p2, dirty2) \<Rightarrow>
               (if ShouldGenerateInitialPatternWhenLoading reader then
                  (case generate_initial_pattern env
                          \<lparr>rd_class = c, payload = p2, dimensions = Dimensions img,
                           number_of_chemicals =
                             int32 (NumberOfScalarComponents img * GetNumberOfArrays pd),
                           filename = [], modified = dirty2\<rparr> of
                     Inl err \<Rightarrow> False
                   | Inr q \<Rightarrow> True)
                else True)))"

definition mesh_steps_accept ::
  "'p collaborators \<Rightarrow> vtkUnstructuredGrid RD_XMLReader \<Rightarrow> vtkUnstructuredGrid \<Rightarrow>
     rd_class \<Rightarrow> bool \<Rightarrow> bool" where
  "mesh_steps_accept env reader ugrid c warn =
     (case fst (initialize_from_xml env c (GetRDElement reader) (fst (construct env c)) warn) of
        Inl err \<Rightarrow> False
      | Inr (p1, dirty1) \<Rightarrow>
          (case copy_from_mesh env
                  \<lparr>rd_class = c, payload = p1, dimensions = (0, 0, 0),
                   number_of_chemicals = 0, filename = [], modified = dirty1\<rparr> ugrid of
             Inl err \<Rightarrow> False
           | Inr (p2, dirty2) \<Rightarrow>
               (if ShouldGenerateInitialPatternWhenLoading reader then
                  (case generate_initial_pattern env
                          \<lparr>rd_class = c, payload = p2, dimensions = (0, 0, 0),
                           number_of_chemicals = 0, filename = [], modified = dirty2\<rparr> of
                     Inl err \<Rightarrow> False
                   | Inr q \<Rightarrow> True)
                else True)))"

text \<open>
  A descriptor with the value of its \<open>name\<close> tag replaced, and nothing else changed:
  two files that are identical except for the value of the name tag have readers that
  differ by this.
\<close>

definition with_name_tag :: "string \<Rightarrow> vtkXMLDataElement \<Rightarrow> vtkXMLDataElement" where
  "with_name_tag n e =
     vtkXMLDataElement (Name e)
       (map (\<lambda>(k, v). if k = ''name'' then (k, n) else (k, v)) (Attributes e))
       (NestedElements e)"



text \<open>
  The failures a sub-constructor raises before it hydrates the model, in the order of
  its checks: the container could not be read; it has no data section; the section has
  no arrays; the rule is inbuilt under an unknown name; the rule is a formula or a kernel
  and OpenCL is not available; the rule type is none of the three. \<open>section\<close> selects
  the point data of an image or the cell data of a mesh.
\<close>

definition fails_before_hydration ::
  "'c RD_XMLReader \<Rightarrow> ('c \<Rightarrow> vtkFieldData option) \<Rightarrow> bool \<Rightarrow> bool" where
  "fails_before_hydration reader section is_opencl_available =
     (case GetOutput reader of
        None \<Rightarrow> True
      | Some c \<Rightarrow>
          (case section c of
             None \<Rightarrow> True
           | Some fd \<Rightarrow>
               fd = [] \<or>
               (GetType reader = ''inbuilt'' \<and> GetName reader \<noteq> ''Gray-Scott'') \<or>
               ((GetType reader = ''formula'' \<or> GetType reader = ''kernel'') \<and>
                  \<not> is_opencl_available) \<or>
               (GetType reader \<noteq> ''inbuilt'' \<and> GetType reader \<noteq> ''formula'' \<and>
                  GetType reader \<noteq> ''kernel'')))"

text \<open>The messages of those failures, and of the failure of the dispatch itself.\<close>

definition early_errors :: "'p collaborators \<Rightarrow> 'c RD_XMLReader \<Rightarrow> error set" where
  "early_errors env reader =
     {runtime_error ''Unsupported data type or file read error'',
      runtime_error ''Failed to read image.'',
      runtime_error ''Image has no point data.'',
      runtime_error ''No arrays in image point data.'',
      runtime_error ''Failed to read unstructured grid.'',
      runtime_error ''Unstructured grid has no cell data.'',
      runtime_error ''No arrays in unstructured grid cell data.'',
      runtime_error (''Unsupported inbuilt implementation: '' @ GetName reader),
      runtime_error (GetOpenCLInstallationHints env),
      runtime_error (''Unsupported rule type: '' @ GetType reader)}"

section \<open>Concrete inputs\<close>

text \<open>
  A descriptor with a rule and a render-settings block that names one setting, a grid of
  dimensions (32,32,1) with one 3-component point-data array, a mesh with one cell-data
  array, a small file system, collaborators whose steps all succeed on a payload that
  counts them and leave the model marked as modified, and stricter collaborators whose
  hydration rejects a descriptor without a format version or with an empty rule name.
\<close>

definition example_descriptor :: "(string \<times> string) list \<Rightarrow> vtkXMLDataElement" where
  "example_descriptor attrs =
     vtkXMLDataElement ''RD'' attrs
       [vtkXMLDataElement ''render_settings'' []
          [vtkXMLDataElement ''timesteps_per_render'' [(''value'', ''100'')] []]]"

definition example_image :: vtkImageData where
  "example_image =
     \<lparr>PointData = Some [\<lparr>DataType = 10, NumberOfComponents = 3\<rparr>],
      Dimensions = (32, 32, 1), NumberOfScalarComponents = 3\<rparr>"

definition example_mesh :: vtkUnstructuredGrid where
  "example_mesh = \<lparr>CellData = Some [\<lparr>DataType = 10, NumberOfComponents = 1\<rparr>]\<rparr>"

definition example_reader :: "'c option \<Rightarrow> string \<Rightarrow> string \<Rightarrow> 'c RD_XMLReader" where
  "example_reader c t n =
     \<lparr>GetOutput = c,
      GetRDElement = example_descriptor [(''format_version'', ''6''), (''type'', t), (''name'', n)],
      ShouldGenerateInitialPatternWhenLoading = True\<rparr>"

definition example_file ::
  "int \<Rightarrow> vtkImageData option \<Rightarrow> vtkUnstructuredGrid option \<Rightarrow> string \<Rightarrow> string \<Rightarrow> rd_file" where
  "example_file t img ugrid ty n =
     \<lparr>OutputType = t, image_reader = example_reader img ty n,
      ugrid_reader = example_reader ugrid ty n\<rparr>"

definition example_files :: "string \<Rightarrow> rd_file" where
  "example_files path =
     (if path = ''grayscott.vti'' then
        example_file 6 (Some example_image) None ''inbuilt'' ''Gray-Scott''
      else if path = ''grayscott.vtu'' then
        example_file 4 None (Some example_mesh) ''inbuilt'' ''Gray-Scott''
      else if path = ''bogus.vti'' then
        example_file 6 (Some example_image) None ''inbuilt'' ''Bogus''
      else if path = ''formula.vti'' then
        example_file 6 (Some example_image) None ''formula'' ''Brusselator''
      else if path = ''renamed.vti'' then
        example_file 6 (Some example_image) None ''formula'' ''Oregonator''
      else if path = ''formula.vtu'' then
        example_file 4 None (Some example_mesh) ''formula'' ''Brusselator''
      else if path = ''renamed.vtu'' then
        example_file 4 None (Some example_mesh) ''formula'' ''Oregonator''
      else if path = ''unnamed.vti'' then
        example_file 6 (Some example_image) None ''formula'' []
      else if path = ''unversioned.vti'' then
        (example_file 6 (Some example_image) None ''inbuilt'' ''Gray-Scott'')
          \<lparr>image_reader :=
             \<lparr>GetOutput = Some example_image,
              GetRDElement = example_descriptor [(''type'', ''inbuilt''), (''name'', ''Gray-Scott'')],
              ShouldGenerateInitialPatternWhenLoading = True\<rparr>\<rparr>
      else if path = ''bare.vtu'' then
        example_file 4 None (Some (example_mesh\<lparr>CellData := None\<rparr>)) ''inbuilt''
          ''Gray-Scott''
      else if path = ''empty.vtu'' then
        example_file 4 None (Some (example_mesh\<lparr>CellData := Some []\<rparr>)) ''inbuilt''
          ''Gray-Scott''
      else if path = ''empty.vti'' then
        example_file 6 (Some (example_image\<lparr>PointData := Some []\<rparr>)) None ''formula''
          ''Brusselator''
      else if path = ''bare.vti'' then
        example_file 6 (Some (example_image\<lparr>PointData := None\<rparr>)) None ''inbuilt''
          ''Gray-Scott''
      else if path = ''surface.vtp'' then
        example_file 0 None None [] []
      else example_file (- 1) None None [] [])"

definition example_env :: "nat collaborators" where
  "example_env =
     \<lparr>files = example_files,
      GetOpenCLInstallationHints = ''No OpenCL platforms found: install a driver.'',
      construct = (\<lambda>c. (0, True)),
      initialize_from_xml = (\<lambda>c e p warn. (Inr (Suc p, True), False)),
      copy_from_image = (\<lambda>m img. Inr (Suc (payload m), True)),
      copy_from_mesh = (\<lambda>m ugrid. Inr (Suc (payload m), True)),
      generate_initial_pattern = (\<lambda>m. Inr (Suc (payload m), True))\<rparr>"

definition strict_env :: "nat collaborators" where
  "strict_env =
     example_env
       \<lparr>initialize_from_xml :=
          (\<lambda>c e p warn.
             if GetAttribute e ''format_version'' = None then
               (Inl (runtime_error ''Descriptor has no format version.''), warn)
             else if GetAttribute e ''name'' = Some [] then
               (Inl (runtime_error ''Rule has no name.''), warn)
             else (Inr (Suc p, True), False))\<rparr>"

definition example_world :: world where
  "example_world =
     \<lparr>lc_numeric = ''de_DE.UTF-8'',
      render_settings =
        [''timesteps_per_render'' \<mapsto> [(''value'', ''1'')],
         ''show_color_scale'' \<mapsto> [(''value'', ''true'')]],
      warn_to_update = False, calls = []\<rparr>"

section \<open>Stepping through the factory\<close>

lemma and_then_throw [simp]: "and_then (throw e) f w = (Inl e, w)"
  by (simp add: and_then_def throw_def)

lemma throw_apply [simp]: "throw e w = (Inl e, w)"
  by (simp add: throw_def)

lemma calls_log_call [simp]: "calls (log_call c w) = calls w @ [c]"
  and render_settings_log_call [simp]: "render_settings (log_call c w) = render_settings w"
  and lc_numeric_log_call [simp]: "lc_numeric (log_call c w) = lc_numeric w"
  and warn_to_update_log_call [simp]: "warn_to_update (log_call c w) = warn_to_update w"
  by (simp_all add: log_call_def)

lemma and_thenE:
  assumes "and_then m f w = (r, w'')"
  obtains (raised) e where "m w = (Inl e, w'')" "r = Inl e"
        | (returned) x w' where "m w = (Inr x, w')" "f x w' = (r, w'')"
  using assms by (auto simp: and_then_def split: prod.splits sum.splits)

text \<open>The choice of the class, as both sub-constructors make it.\<close>

lemma selectE:
  assumes "(if t = ''inbuilt'' then
              (if n = ''Gray-Scott'' then make_unique env c1 else throw (runtime_error e1))
            else if t = ''formula'' then
              (if \<not> a then throw (runtime_error h) else make_unique env c2)
            else if t = ''kernel'' then
              (if \<not> a then throw (runtime_error h) else make_unique env c3)
            else throw (runtime_error e4)) w = (r, w')"
  obtains (unknown_name) "t = ''inbuilt''" "n \<noteq> ''Gray-Scott''" "r = Inl (runtime_error e1)" "w' = w"
   | (unavailable) "t = ''formula'' \<or> t = ''kernel''" "\<not> a" "r = Inl (runtime_error h)" "w' = w"
   | (unknown_type) "t \<noteq> ''inbuilt''" "t \<noteq> ''formula''" "t \<noteq> ''kernel''"
       "r = Inl (runtime_error e4)" "w' = w"
   | (made) c where
       "t = ''inbuilt'' \<and> n = ''Gray-Scott'' \<and> c = c1 \<or> t = ''formula'' \<and> a \<and> c = c2 \<or>
        t = ''kernel'' \<and> a \<and> c = c3"
       "r = Inr \<lparr>rd_class = c, payload = fst (construct env c), dimensions = (0, 0, 0),
                 number_of_chemicals = 0, filename = [], modified = snd (construct env c)\<rparr>"
       "w' = log_call (Call_make_unique c) w"
  using assms by (auto simp: make_unique_def split: if_splits)

lemma make_uniqueE:
  assumes "make_unique env c w = (r, w')"
  obtains "r = Inr \<lparr>rd_class = c, payload = fst (construct env c), dimensions = (0, 0, 0),
                    number_of_chemicals = 0, filename = [], modified = snd (construct env c)\<rparr>"
    "w' = log_call (Call_make_unique c) w"
  using assms by (auto simp: make_unique_def)

lemma InitializeFromXML_E:
  assumes "InitializeFromXML env e m w = (r, w')"
  obtains (raised) err warn where
      "initialize_from_xml env (rd_class m) e (payload m) (warn_to_update w) = (Inl err, warn)"
      "r = Inl err" "w' = (log_call Call_InitializeFromXML w)\<lparr>warn_to_update := warn\<rparr>"
    | (returned) q dirty warn where
      "initialize_from_xml env (rd_class m) e (payload m) (warn_to_update w) =
         (Inr (q, dirty), warn)"
      "r = Inr (m\<lparr>payload := q, modified := dirty\<rparr>)"
      "w' = (log_call Call_InitializeFromXML w)\<lparr>warn_to_update := warn\<rparr>"
  using assms
  by (auto simp: InitializeFromXML_def Let_def log_call_def split: prod.splits sum.splits)

lemma CopyFromImage_E:
  assumes "CopyFromImage env img m w = (r, w')"
  obtains (raised) err where "copy_from_image env m img = Inl err"
      "r = Inl err" "w' = log_call Call_CopyFromImage w"
    | (returned) q dirty where "copy_from_image env m img = Inr (q, dirty)"
      "r = Inr (m\<lparr>payload := q, modified := dirty\<rparr>)" "w' = log_call Call_CopyFromImage w"
  using assms by (auto simp: CopyFromImage_def Let_def split: sum.splits)

lemma CopyFromMesh_E:
  assumes "CopyFromMesh env ugrid m w = (r, w')"
  obtains (raised) err where "copy_from_mesh env m ugrid = Inl err"
      "r = Inl err" "w' = log_call Call_CopyFromMesh w"
    | (returned) q dirty where "copy_from_mesh env m ugrid = Inr (q, dirty)"
      "r = Inr (m\<lparr>payload := q, modified := dirty\<rparr>)" "w' = log_call Call_CopyFromMesh w"
  using assms by (auto simp: CopyFromMesh_def Let_def split: sum.splits)

lemma GenerateInitialPattern_E:
  assumes "GenerateInitialPattern env m w = (r, w')"
  obtains (raised) err where "generate_initial_pattern env m = Inl err"
      "r = Inl err" "w' = log_call Call_GenerateInitialPattern w"
    | (returned) q dirty where "generate_initial_pattern env m = Inr (q, dirty)"
      "r = Inr (m\<lparr>payload := q, modified := dirty\<rparr>)" "w' = log_call Call_GenerateInitialPattern w"
  using assms by (auto simp: GenerateInitialPattern_def Let_def split: sum.splits)

lemma SetDimensions_E:
  assumes "SetDimensions x y z m w = (r, w')"
  obtains "r = Inr (m\<lparr>dimensions := (x, y, z)\<rparr>)" "w' = log_call (Call_SetDimensions x y z) w"
  using assms by (auto simp: SetDimensions_def)

lemma SetNumberOfChemicals_E:
  assumes "SetNumberOfChemicals n m w = (r, w')"
  obtains "r = Inr (m\<lparr>number_of_chemicals := n\<rparr>)"
    "w' = log_call (Call_SetNumberOfChemicals n) w"
  using assms by (auto simp: SetNumberOfChemicals_def)

lemma overlay_render_settings_E:
  assumes "overlay_render_settings rd w = (r, w')"
  obtains (absent) "FindNestedElementWithName rd ''render_settings'' = None" "r = Inr ()" "w' = w"
    | (present) x where "FindNestedElementWithName rd ''render_settings'' = Some x" "r = Inr ()"
      "w' = (log_call Call_OverwriteFromXML w)
              \<lparr>render_settings := OverwriteFromXML (render_settings w) x\<rparr>"
  using assms by (auto simp: overlay_render_settings_def split: option.splits)

lemmas step_elims = and_thenE selectE make_uniqueE InitializeFromXML_E CopyFromImage_E CopyFromMesh_E
  GenerateInitialPattern_E SetDimensions_E SetNumberOfChemicals_E overlay_render_settings_E

text \<open>The dispatch of \<open>CreateFromFile\<close>, one equation for each branch of its switch.\<close>

lemma CreateFromFile_image:
  assumes "OutputType (files env path) = VTK_IMAGE_DATA"
  shows "CreateFromFile env path a p d w =
     (case CreateFromImageDataFile env path a p d (w\<lparr>lc_numeric := ''C''\<rparr>) of
        (Inl e, w') \<Rightarrow> (Inl e, w')
      | (Inr m, w') \<Rightarrow>
          (Inr (m\<lparr>filename := path, modified := False\<rparr>),
           log_call (Call_SetModified False)
             (log_call (Call_SetFilename path) (w'\<lparr>lc_numeric := ''C''\<rparr>))))"
  using assms
  by (simp add: CreateFromFile_def setlocale_LC_NUMERIC_def ReadOutputType_def and_then_def
      SetFilename_def SetModified_def split: prod.splits sum.splits)

lemma CreateFromFile_ugrid:
  assumes "OutputType (files env path) = VTK_UNSTRUCTURED_GRID"
  shows "CreateFromFile env path a p d w =
     (case CreateFromUnstructuredGridFile env path a p d (w\<lparr>lc_numeric := ''C''\<rparr>) of
        (Inl e, w') \<Rightarrow> (Inl e, w')
      | (Inr m, w') \<Rightarrow>
          (Inr (m\<lparr>filename := path, modified := False\<rparr>),
           log_call (Call_SetModified False)
             (log_call (Call_SetFilename path) (w'\<lparr>lc_numeric := ''C''\<rparr>))))"
  using assms
  by (simp add: CreateFromFile_def setlocale_LC_NUMERIC_def ReadOutputType_def and_then_def
      SetFilename_def SetModified_def VTK_IMAGE_DATA_def VTK_UNSTRUCTURED_GRID_def
      split: prod.splits sum.splits)

lemma CreateFromFile_other:
  assumes "OutputType (files env path) \<noteq> VTK_IMAGE_DATA"
    and "OutputType (files env path) \<noteq> VTK_UNSTRUCTURED_GRID"
  shows "CreateFromFile env path a p d w =
     (Inl (runtime_error ''Unsupported data type or file read error''), w\<lparr>lc_numeric := ''C''\<rparr>)"
  using assms by (simp add: CreateFromFile_def setlocale_LC_NUMERIC_def ReadOutputType_def)

text \<open>The failures before hydration leave the state as it was on entry.\<close>

lemma CreateFromImageDataFile_early:
  assumes "fails_before_hydration (image_reader (files env path)) PointData a"
  shows "\<exists>e \<in> early_errors env (image_reader (files env path)).
           CreateFromImageDataFile env path a p d w = (Inl e, log_call Enter_CreateFromImageDataFile w)"
  using assms
  by (auto simp: fails_before_hydration_def early_errors_def CreateFromImageDataFile_def
      GetArray_def Let_def split: option.splits)

lemma CreateFromUnstructuredGridFile_early:
  assumes "fails_before_hydration (ugrid_reader (files env path)) CellData a"
  shows "\<exists>e \<in> early_errors env (ugrid_reader (files env path)).
           CreateFromUnstructuredGridFile env path a p d w =
             (Inl e, log_call Enter_CreateFromUnstructuredGridFile w)"
  using assms
  by (auto simp: fails_before_hydration_def early_errors_def CreateFromUnstructuredGridFile_def
      GetArray_def Let_def split: option.splits)

lemmas example_defs = example_env_def example_files_def example_file_def example_reader_def
  example_image_def example_mesh_def example_world_def example_descriptor_def
  GetType_def GetName_def GetAttribute_def
  VTK_IMAGE_DATA_def VTK_UNSTRUCTURED_GRID_def

lemmas run_defs = CreateFromFile_def CreateFromImageDataFile_def CreateFromUnstructuredGridFile_def
  and_then_def throw_def returns_def log_call_def make_unique_def
  InitializeFromXML_def SetDimensions_def SetNumberOfChemicals_def CopyFromImage_def
  CopyFromMesh_def GenerateInitialPattern_def SetFilename_def SetModified_def
  overlay_render_settings_def setlocale_LC_NUMERIC_def ReadOutputType_def GetArray_def
  GetNumberOfArrays_def FindNestedElementWithName_def OverwriteFromXML_def int32_def

section \<open>The numeric locale\<close>

text \<open>
  C1. The claim: after every call of \<open>CreateFromFile\<close>, failed or not, the numeric
  locale of the process is what it was before the call. The code restores the locale
  only after the switch, so an exception leaves the override in place: on a path whose
  output type is not recognised, a process that ran under \<open>de_DE.UTF-8\<close> is left
  under \<open>C\<close>.
\<close>

theorem CreateFromFile_error_leaves_C_locale:
  "lc_numeric example_world = ''de_DE.UTF-8'' \<and>
   fst (CreateFromFile example_env ''missing.vti'' False 0 0 example_world) =
     Inl (runtime_error ''Unsupported data type or file read error'') \<and>
   lc_numeric (snd (CreateFromFile example_env ''missing.vti'' False 0 0 example_world)) = ''C''"
  by (simp add: run_defs example_defs)

section \<open>Formula and kernel rules without OpenCL\<close>

text \<open>
  C2, as stated: with the type tag \<open>formula\<close> or \<open>kernel\<close> and no OpenCL, the call
  fails with the error that carries the installation hints, whatever the file holds.
  It does not: the checks of the container come first, and a formula file whose point
  data has no arrays fails with the missing-data message.
\<close>

theorem formula_without_arrays_counterexample:
  "GetType (image_reader (files example_env ''empty.vti'')) = ''formula'' \<and>
   fst (CreateFromFile example_env ''empty.vti'' False 0 0 example_world) =
     Inl (runtime_error ''No arrays in image point data.'') \<and>
   fst (CreateFromFile example_env ''empty.vti'' False 0 0 example_world) \<noteq>
     Inl (runtime_error (GetOpenCLInstallationHints example_env))"
  by (simp add: run_defs example_defs)

text \<open>
  C2, amended: with the type tag \<open>formula\<close> or \<open>kernel\<close> and no OpenCL, the call never
  returns a model; and when the file is a grid or a mesh whose container was read with a
  data section of at least one array, the error is the one that carries the installation
  hints.
\<close>

theorem formula_kernel_without_opencl:
  assumes "OutputType (files env path) = VTK_IMAGE_DATA \<longrightarrow>
             GetType (image_reader (files env path)) = ''formula'' \<or>
             GetType (image_reader (files env path)) = ''kernel''"
      and "OutputType (files env path) = VTK_UNSTRUCTURED_GRID \<longrightarrow>
             GetType (ugrid_reader (files env path)) = ''formula'' \<or>
             GetType (ugrid_reader (files env path)) = ''kernel''"
  shows "(\<exists>e. fst (CreateFromFile env path False p d w) = Inl e) \<and>
         (OutputType (files env path) = VTK_IMAGE_DATA \<and>
          (\<exists>img pd. GetOutput (image_reader (files env path)) = Some img \<and>
                    PointData img = Some pd \<and> pd \<noteq> []) \<longrightarrow>
            fst (CreateFromFile env path False p d w) =
              Inl (runtime_error (GetOpenCLInstallationHints env))) \<and>
         (OutputType (files env path) = VTK_UNSTRUCTURED_GRID \<and>
          (\<exists>ugrid cd. GetOutput (ugrid_reader (files env path)) = Some ugrid \<and>
                    CellData ugrid = Some cd \<and> cd \<noteq> []) \<longrightarrow>
            fst (CreateFromFile env path False p d w) =
              Inl (runtime_error (GetOpenCLInstallationHints env)))"
proof -
  consider (image) "OutputType (files env path) = VTK_IMAGE_DATA"
    | (ugrid) "OutputType (files env path) = VTK_UNSTRUCTURED_GRID"
    | (other) "OutputType (files env path) \<noteq> VTK_IMAGE_DATA"
        "OutputType (files env path) \<noteq> VTK_UNSTRUCTURED_GRID"
    by blast
  then show ?thesis
  proof cases
    case image
    with assms(1) show ?thesis
      by (auto simp: CreateFromFile_image CreateFromImageDataFile_def
          GetArray_def Let_def VTK_IMAGE_DATA_def VTK_UNSTRUCTURED_GRID_def
          split: option.splits)
  next
    case ugrid
    with assms(2) show ?thesis
      by (auto simp: CreateFromFile_ugrid CreateFromUnstructuredGridFile_def 
          GetArray_def Let_def VTK_IMAGE_DATA_def VTK_UNSTRUCTURED_GRID_def
          split: option.splits)
  next
    case other
    then show ?thesis
      by (simp add: CreateFromFile_other)
  qed
qed

theorem formula_kernel_without_opencl_witness:
  "OutputType (files example_env ''formula.vti'') = VTK_IMAGE_DATA \<and>
   GetType (image_reader (files example_env ''formula.vti'')) = ''formula'' \<and>
   GetOutput (image_reader (files example_env ''formula.vti'')) = Some example_image \<and>
   PointData example_image = Some [\<lparr>DataType = 10, NumberOfComponents = 3\<rparr>] \<and>
   fst (CreateFromFile example_env ''formula.vti'' False 0 0 example_world) =
     Inl (runtime_error (GetOpenCLInstallationHints example_env))"
  using formula_kernel_without_opencl [of example_env "''formula.vti''" 0 0 example_world]
  by (simp add: example_defs)

section \<open>The dispatch on the container topology\<close>

text \<open>Every entry a sub-constructor logs after its own is a call it makes on the model.\<close>

lemma CreateFromImageDataFile_calls:
  assumes "CreateFromImageDataFile env path a p d w = (r, w')"
  shows "\<exists>tr. calls w' = calls w @ Enter_CreateFromImageDataFile # tr \<and>
     Enter_CreateFromImageDataFile \<notin> set tr \<and> Enter_CreateFromUnstructuredGridFile \<notin> set tr"
  using assms unfolding CreateFromImageDataFile_def
  by (auto simp: Let_def returns_def split: option.splits if_splits prod.splits elim!: step_elims)

lemma CreateFromUnstructuredGridFile_calls:
  assumes "CreateFromUnstructuredGridFile env path a p d w = (r, w')"
  shows "\<exists>tr. calls w' = calls w @ Enter_CreateFromUnstructuredGridFile # tr \<and>
     Enter_CreateFromImageDataFile \<notin> set tr \<and> Enter_CreateFromUnstructuredGridFile \<notin> set tr"
  using assms unfolding CreateFromUnstructuredGridFile_def
  by (auto simp: Let_def returns_def split: option.splits if_splits prod.splits elim!: step_elims)

text \<open>
  C3. For an image file \<open>CreateFromFile\<close> returns what the image sub-constructor
  returns (file name set, modified flag cleared), and the mesh sub-constructor is not
  entered; for an unstructured grid it is the other way round; for any other output type
  it raises the unsupported-format error and nothing is called: the log is as it was, so
  no model was constructed.
\<close>

theorem CreateFromFile_dispatch:
  "(OutputType (files env path) = VTK_IMAGE_DATA \<longrightarrow>
      fst (CreateFromFile env path a p d w) =
        map_sum id (\<lambda>m. m\<lparr>filename := path, modified := False\<rparr>)
          (fst (CreateFromImageDataFile env path a p d (w\<lparr>lc_numeric := ''C''\<rparr>))) \<and>
      (\<exists>tr. calls (snd (CreateFromFile env path a p d w)) = calls w @ tr \<and>
            Enter_CreateFromImageDataFile \<in> set tr \<and>
            Enter_CreateFromUnstructuredGridFile \<notin> set tr)) \<and>
   (OutputType (files env path) = VTK_UNSTRUCTURED_GRID \<longrightarrow>
      fst (CreateFromFile env path a p d w) =
        map_sum id (\<lambda>m. m\<lparr>filename := path, modified := False\<rparr>)
          (fst (CreateFromUnstructuredGridFile env path a p d (w\<lparr>lc_numeric := ''C''\<rparr>))) \<and>
      (\<exists>tr. calls (snd (CreateFromFile env path a p d w)) = calls w @ tr \<and>
            Enter_CreateFromUnstructuredGridFile \<in> set tr \<and>
            Enter_CreateFromImageDataFile \<notin> set tr)) \<and>
   (OutputType (files env path) \<noteq> VTK_IMAGE_DATA \<and>
    OutputType (files env path) \<noteq> VTK_UNSTRUCTURED_GRID \<longrightarrow>
      CreateFromFile env path a p d w =
        (Inl (runtime_error ''Unsupported data type or file read error''),
         w\<lparr>lc_numeric := ''C''\<rparr>))"
proof (intro conjI impI)
  assume t: "OutputType (files env path) = VTK_IMAGE_DATA"
  obtain r w' where run: "CreateFromImageDataFile env path a p d (w\<lparr>lc_numeric := ''C''\<rparr>) = (r, w')"
    by (cases "CreateFromImageDataFile env path a p d (w\<lparr>lc_numeric := ''C''\<rparr>)")
  from CreateFromImageDataFile_calls [OF run] obtain tr where
    tr: "calls w' = calls w @ Enter_CreateFromImageDataFile # tr"
      "Enter_CreateFromImageDataFile \<notin> set tr" "Enter_CreateFromUnstructuredGridFile \<notin> set tr"
    by auto
  show "fst (CreateFromFile env path a p d w) =
        map_sum id (\<lambda>m. m\<lparr>filename := path, modified := False\<rparr>)
          (fst (CreateFromImageDataFile env path a p d (w\<lparr>lc_numeric := ''C''\<rparr>)))"
    by (simp add: CreateFromFile_image [OF t] run split: sum.splits)
  show "\<exists>tr. calls (snd (CreateFromFile env path a p d w)) = calls w @ tr \<and>
            Enter_CreateFromImageDataFile \<in> set tr \<and>
            Enter_CreateFromUnstructuredGridFile \<notin> set tr"
    using tr by (cases r) (simp_all add: CreateFromFile_image [OF t] run)
next
  assume t: "OutputType (files env path) = VTK_UNSTRUCTURED_GRID"
  obtain r w' where run: "CreateFromUnstructuredGridFile env path a p d (w\<lparr>lc_numeric := ''C''\<rparr>) = (r, w')"
    by (cases "CreateFromUnstructuredGridFile env path a p d (w\<lparr>lc_numeric := ''C''\<rparr>)")
  from CreateFromUnstructuredGridFile_calls [OF run] obtain tr where
    tr: "calls w' = calls w @ Enter_CreateFromUnstructuredGridFile # tr"
      "Enter_CreateFromImageDataFile \<notin> set tr" "Enter_CreateFromUnstructuredGridFile \<notin> set tr"
    by auto
  show "fst (CreateFromFile env path a p d w) =
        map_sum id (\<lambda>m. m\<lparr>filename := path, modified := False\<rparr>)
          (fst (CreateFromUnstructuredGridFile env path a p d (w\<lparr>lc_numeric := ''C''\<rparr>)))"
    by (simp add: CreateFromFile_ugrid [OF t] run split: sum.splits)
  show "\<exists>tr. calls (snd (CreateFromFile env path a p d w)) = calls w @ tr \<and>
            Enter_CreateFromUnstructuredGridFile \<in> set tr \<and>
            Enter_CreateFromImageDataFile \<notin> set tr"
    using tr by (cases r) (simp_all add: CreateFromFile_ugrid [OF t] run)
next
  assume "OutputType (files env path) \<noteq> VTK_IMAGE_DATA \<and>
    OutputType (files env path) \<noteq> VTK_UNSTRUCTURED_GRID"
  then show "CreateFromFile env path a p d w =
        (Inl (runtime_error ''Unsupported data type or file read error''),
         w\<lparr>lc_numeric := ''C''\<rparr>)"
    by (simp add: CreateFromFile_other)
qed

theorem CreateFromFile_dispatch_witness:
  "OutputType (files example_env ''grayscott.vti'') = VTK_IMAGE_DATA \<and>
   Enter_CreateFromImageDataFile \<in>
     set (calls (snd (CreateFromFile example_env ''grayscott.vti'' False 0 0 example_world))) \<and>
   Enter_CreateFromUnstructuredGridFile \<notin>
     set (calls (snd (CreateFromFile example_env ''grayscott.vti'' False 0 0 example_world))) \<and>
   OutputType (files example_env ''grayscott.vtu'') = VTK_UNSTRUCTURED_GRID \<and>
   Enter_CreateFromUnstructuredGridFile \<in>
     set (calls (snd (CreateFromFile example_env ''grayscott.vtu'' False 0 0 example_world))) \<and>
   Enter_CreateFromImageDataFile \<notin>
     set (calls (snd (CreateFromFile example_env ''grayscott.vtu'' False 0 0 example_world))) \<and>
   OutputType (files example_env ''surface.vtp'') \<noteq> VTK_IMAGE_DATA \<and>
   OutputType (files example_env ''surface.vtp'') \<noteq> VTK_UNSTRUCTURED_GRID \<and>
   CreateFromFile example_env ''surface.vtp'' False 0 0 example_world =
     (Inl (runtime_error ''Unsupported data type or file read error''),
      example_world\<lparr>lc_numeric := ''C''\<rparr>)"
  using CreateFromFile_dispatch [of example_env "''grayscott.vti''" False 0 0 example_world]
    CreateFromFile_dispatch [of example_env "''grayscott.vtu''" False 0 0 example_world]
    CreateFromFile_dispatch [of example_env "''surface.vtp''" False 0 0 example_world]
  by (auto simp: example_defs)

section \<open>Inbuilt rules\<close>

lemma CreateFromImageDataFile_gray_scott:
  assumes "GetOutput (image_reader (files env path)) = Some img"
    and "PointData img = Some pd" "pd \<noteq> []"
    and "GetType (image_reader (files env path)) = ''inbuilt''"
    and "GetName (image_reader (files env path)) = ''Gray-Scott''"
    and "CreateFromImageDataFile env path a p d w = (r, w')"
  shows "((\<exists>m. r = Inr m) \<longleftrightarrow>
            image_steps_accept env (image_reader (files env path)) img pd GrayScottImageRD
              (warn_to_update w)) \<and>
         (\<forall>m. r = Inr m \<longrightarrow> rd_class m = GrayScottImageRD) \<and>
         Call_make_unique GrayScottImageRD \<in> set (calls w')"
  using assms unfolding CreateFromImageDataFile_def image_steps_accept_def
  by (auto simp: Let_def and_then_def make_unique_def InitializeFromXML_def
      overlay_render_settings_def SetDimensions_def SetNumberOfChemicals_def CopyFromImage_def
      GenerateInitialPattern_def returns_def GetArray_def log_call_def
      split: prod.splits sum.splits option.splits if_splits)

lemma CreateFromUnstructuredGridFile_gray_scott:
  assumes "GetOutput (ugrid_reader (files env path)) = Some ugrid"
    and "CellData ugrid = Some cd" "cd \<noteq> []"
    and "GetType (ugrid_reader (files env path)) = ''inbuilt''"
    and "GetName (ugrid_reader (files env path)) = ''Gray-Scott''"
    and "CreateFromUnstructuredGridFile env path a p d w = (r, w')"
  shows "((\<exists>m. r = Inr m) \<longleftrightarrow>
            mesh_steps_accept env (ugrid_reader (files env path)) ugrid GrayScottMeshRD
              (warn_to_update w)) \<and>
         (\<forall>m. r = Inr m \<longrightarrow> rd_class m = GrayScottMeshRD) \<and>
         Call_make_unique GrayScottMeshRD \<in> set (calls w')"
  using assms unfolding CreateFromUnstructuredGridFile_def mesh_steps_accept_def
  by (auto simp: Let_def and_then_def make_unique_def InitializeFromXML_def
      overlay_render_settings_def CopyFromMesh_def
      GenerateInitialPattern_def returns_def GetArray_def log_call_def
      split: prod.splits sum.splits option.splits if_splits)

lemma CreateFromImageDataFile_unknown_name:
  assumes "GetOutput (image_reader (files env path)) = Some img"
    and "PointData img = Some pd" "pd \<noteq> []"
    and "GetType (image_reader (files env path)) = ''inbuilt''"
    and "GetName (image_reader (files env path)) \<noteq> ''Gray-Scott''"
  shows "fst (CreateFromImageDataFile env path a p d w) =
           Inl (runtime_error (''Unsupported inbuilt implementation: '' @
                  GetName (image_reader (files env path))))"
  using assms by (simp add: CreateFromImageDataFile_def GetArray_def Let_def)

lemma CreateFromUnstructuredGridFile_unknown_name:
  assumes "GetOutput (ugrid_reader (files env path)) = Some ugrid"
    and "CellData ugrid = Some cd" "cd \<noteq> []"
    and "GetType (ugrid_reader (files env path)) = ''inbuilt''"
    and "GetName (ugrid_reader (files env path)) \<noteq> ''Gray-Scott''"
  shows "fst (CreateFromUnstructuredGridFile env path a p d w) =
           Inl (runtime_error (''Unsupported inbuilt implementation: '' @
                  GetName (ugrid_reader (files env path))))"
  using assms by (simp add: CreateFromUnstructuredGridFile_def GetArray_def Let_def)

text \<open>
  C4, as stated: a readable file with the type tag \<open>inbuilt\<close> and the name tag
  \<open>Gray-Scott\<close> is constructed with success. It need not be: the file below is read
  with its point data and one array, and carries both tags, but the hydration of the
  model rejects its descriptor, and the error is passed on to the caller.
\<close>

theorem gray_scott_rejected_counterexample:
  "OutputType (files strict_env ''unversioned.vti'') = VTK_IMAGE_DATA \<and>
   GetOutput (image_reader (files strict_env ''unversioned.vti'')) = Some example_image \<and>
   PointData example_image = Some [\<lparr>DataType = 10, NumberOfComponents = 3\<rparr>] \<and>
   GetType (image_reader (files strict_env ''unversioned.vti'')) = ''inbuilt'' \<and>
   GetName (image_reader (files strict_env ''unversioned.vti'')) = ''Gray-Scott'' \<and>
   fst (CreateFromImageDataFile strict_env ''unversioned.vti'' False 0 0 example_world) =
     Inl (runtime_error ''Descriptor has no format version.'') \<and>
   fst (CreateFromFile strict_env ''unversioned.vti'' False 0 0 example_world) =
     Inl (runtime_error ''Descriptor has no format version.'')"
  by (simp add: run_defs example_defs strict_env_def)

text \<open>
  C4, amended. For a file whose container was read with a data section of at least one
  array and whose type tag is \<open>inbuilt\<close>: under the name \<open>Gray-Scott\<close> the
  sub-constructor constructs the Gray-Scott class, which has no platform or device, and
  returns a model exactly when the steps of that class (hydration, copy-in, pattern
  generation if asked for) accept this file, and the model it returns is of that class;
  under any other name it raises the unsupported-rule error that quotes the name. Image
  and mesh alike.
\<close>

theorem inbuilt_rule_by_name:
  "(GetOutput (image_reader (files env path)) = Some img \<and> PointData img = Some pd \<and>
    pd \<noteq> [] \<and> GetType (image_reader (files env path)) = ''inbuilt'' \<longrightarrow>
      (GetName (image_reader (files env path)) = ''Gray-Scott'' \<longrightarrow>
         ((\<exists>m. fst (CreateFromImageDataFile env path a p d w) = Inr m) \<longleftrightarrow>
            image_steps_accept env (image_reader (files env path)) img pd GrayScottImageRD
              (warn_to_update w)) \<and>
         (\<forall>m. fst (CreateFromImageDataFile env path a p d w) = Inr m \<longrightarrow>
            rd_class m = GrayScottImageRD \<and> opencl_binding (rd_class m) = None) \<and>
         Call_make_unique GrayScottImageRD \<in>
           set (calls (snd (CreateFromImageDataFile env path a p d w)))) \<and>
      (GetName (image_reader (files env path)) \<noteq> ''Gray-Scott'' \<longrightarrow>
         fst (CreateFromImageDataFile env path a p d w) =
           Inl (runtime_error (''Unsupported inbuilt implementation: '' @
                  GetName (image_reader (files env path)))))) \<and>
   (GetOutput (ugrid_reader (files env path)) = Some ugrid \<and> CellData ugrid = Some cd \<and>
    cd \<noteq> [] \<and> GetType (ugrid_reader (files env path)) = ''inbuilt'' \<longrightarrow>
      (GetName (ugrid_reader (files env path)) = ''Gray-Scott'' \<longrightarrow>
         ((\<exists>m. fst (CreateFromUnstructuredGridFile env path a p d w) = Inr m) \<longleftrightarrow>
            mesh_steps_accept env (ugrid_reader (files env path)) ugrid GrayScottMeshRD
              (warn_to_update w)) \<and>
         (\<forall>m. fst (CreateFromUnstructuredGridFile env path a p d w) = Inr m \<longrightarrow>
            rd_class m = GrayScottMeshRD \<and> opencl_binding (rd_class m) = None) \<and>
         Call_make_unique GrayScottMeshRD \<in>
           set (calls (snd (CreateFromUnstructuredGridFile env path a p d w)))) \<and>
      (GetName (ugrid_reader (files env path)) \<noteq> ''Gray-Scott'' \<longrightarrow>
         fst (CreateFromUnstructuredGridFile env path a p d w) =
           Inl (runtime_error (''Unsupported inbuilt implementation: '' @
                  GetName (ugrid_reader (files env path))))))"
proof -
  obtain r1 w1 where run1: "CreateFromImageDataFile env path a p d w = (r1, w1)"
    by (cases "CreateFromImageDataFile env path a p d w")
  obtain r2 w2 where run2: "CreateFromUnstructuredGridFile env path a p d w = (r2, w2)"
    by (cases "CreateFromUnstructuredGridFile env path a p d w")
  show ?thesis
    using CreateFromImageDataFile_gray_scott [of env path img pd a p d w r1 w1]
      CreateFromUnstructuredGridFile_gray_scott [of env path ugrid cd a p d w r2 w2]
      CreateFromImageDataFile_unknown_name [of env path img pd a p d w]
      CreateFromUnstructuredGridFile_unknown_name [of env path ugrid cd a p d w]
    by (simp add: run1 run2)
qed

theorem inbuilt_rule_by_name_witness:
  "GetOutput (image_reader (files example_env ''grayscott.vti'')) = Some example_image \<and>
   PointData example_image = Some [\<lparr>DataType = 10, NumberOfComponents = 3\<rparr>] \<and>
   GetType (image_reader (files example_env ''grayscott.vti'')) = ''inbuilt'' \<and>
   GetName (image_reader (files example_env ''grayscott.vti'')) = ''Gray-Scott'' \<and>
   image_steps_accept example_env (image_reader (files example_env ''grayscott.vti''))
     example_image [\<lparr>DataType = 10, NumberOfComponents = 3\<rparr>] GrayScottImageRD
     (warn_to_update example_world) \<and>
   (\<exists>m. fst (CreateFromImageDataFile example_env ''grayscott.vti'' False 0 0 example_world) =
          Inr m \<and> rd_class m = GrayScottImageRD \<and> opencl_binding (rd_class m) = None) \<and>
   GetOutput (ugrid_reader (files example_env ''grayscott.vtu'')) = Some example_mesh \<and>
   CellData example_mesh = Some [\<lparr>DataType = 10, NumberOfComponents = 1\<rparr>] \<and>
   GetType (ugrid_reader (files example_env ''grayscott.vtu'')) = ''inbuilt'' \<and>
   GetName (ugrid_reader (files example_env ''grayscott.vtu'')) = ''Gray-Scott'' \<and>
   mesh_steps_accept example_env (ugrid_reader (files example_env ''grayscott.vtu''))
     example_mesh GrayScottMeshRD (warn_to_update example_world) \<and>
   (\<exists>m. fst (CreateFromUnstructuredGridFile example_env ''grayscott.vtu'' False 0 0
              example_world) =
          Inr m \<and> rd_class m = GrayScottMeshRD \<and> opencl_binding (rd_class m) = None) \<and>
   GetOutput (image_reader (files example_env ''bogus.vti'')) = Some example_image \<and>
   GetType (image_reader (files example_env ''bogus.vti'')) = ''inbuilt'' \<and>
   GetName (image_reader (files example_env ''bogus.vti'')) = ''Bogus'' \<and>
   fst (CreateFromImageDataFile example_env ''bogus.vti'' False 0 0 example_world) =
     Inl (runtime_error ''Unsupported inbuilt implementation: Bogus'')"
  using inbuilt_rule_by_name [of example_env "''grayscott.vti''" example_image
      "[\<lparr>DataType = 10, NumberOfComponents = 3\<rparr>]" False 0 0 example_world example_mesh
      "[\<lparr>DataType = 10, NumberOfComponents = 1\<rparr>]"]
    inbuilt_rule_by_name [of example_env "''grayscott.vtu''" example_image
      "[\<lparr>DataType = 10, NumberOfComponents = 3\<rparr>]" False 0 0 example_world example_mesh
      "[\<lparr>DataType = 10, NumberOfComponents = 1\<rparr>]"]
    inbuilt_rule_by_name [of example_env "''bogus.vti''" example_image
      "[\<lparr>DataType = 10, NumberOfComponents = 3\<rparr>]" False 0 0 example_world example_mesh
      "[\<lparr>DataType = 10, NumberOfComponents = 1\<rparr>]"]
  by (auto simp: example_defs image_steps_accept_def mesh_steps_accept_def)

section \<open>The attributes of a model loaded from a grid\<close>

lemma int32_in_range: "- 2147483648 \<le> x \<Longrightarrow> x \<le> 2147483647 \<Longrightarrow> int32 x = x"
  by (simp add: int32_def)

lemma CreateFromImageDataFile_attributes:
  assumes "CreateFromImageDataFile env path a p d w = (Inr m, w')"
  shows "\<exists>img pd. GetOutput (image_reader (files env path)) = Some img \<and>
           PointData img = Some pd \<and> dimensions m = Dimensions img \<and>
           number_of_chemicals m =
             int32 (NumberOfScalarComponents img * GetNumberOfArrays pd)"
  using assms unfolding CreateFromImageDataFile_def
  by (auto simp: Let_def returns_def split: option.splits if_splits prod.splits
      elim!: step_elims)

text \<open>
  C5. A model that \<open>CreateFromFile\<close> returns for a grid file has the dimensions of
  the container; its number of chemicals is the \<open>int\<close> product of the scalar components
  of the image and the number of its point-data arrays, which is their product for a
  well-formed file, whose counts multiply within the range of an \<open>int\<close>; its file name
  is the path; and it is not modified, whatever the constructor and the steps of the
  class left in the flag.
\<close>

theorem grid_model_attributes:
  assumes "OutputType (files env path) = VTK_IMAGE_DATA"
    and "CreateFromFile env path a p d w = (Inr m, w')"
  shows "\<exists>img pd. GetOutput (image_reader (files env path)) = Some img \<and>
           PointData img = Some pd \<and> dimensions m = Dimensions img \<and>
           number_of_chemicals m =
             int32 (NumberOfScalarComponents img * GetNumberOfArrays pd) \<and>
           (- 2147483648 \<le> NumberOfScalarComponents img * GetNumberOfArrays pd \<and>
            NumberOfScalarComponents img * GetNumberOfArrays pd \<le> 2147483647 \<longrightarrow>
              number_of_chemicals m = NumberOfScalarComponents img * GetNumberOfArrays pd) \<and>
           filename m = path \<and> modified m = False"
proof -
  obtain r w1 where run:
    "CreateFromImageDataFile env path a p d (w\<lparr>lc_numeric := ''C''\<rparr>) = (r, w1)"
    by (cases "CreateFromImageDataFile env path a p d (w\<lparr>lc_numeric := ''C''\<rparr>)")
  from assms run obtain m1 where r: "r = Inr m1"
    and m: "m = m1\<lparr>filename := path, modified := False\<rparr>"
    by (cases r) (auto simp: CreateFromFile_image)
  from CreateFromImageDataFile_attributes [OF run [unfolded r]] m show ?thesis
    by (auto simp: int32_in_range)
qed

theorem grid_model_attributes_witness:
  "OutputType (files example_env ''grayscott.vti'') = VTK_IMAGE_DATA \<and>
   (\<exists>m w'. CreateFromFile example_env ''grayscott.vti'' False 0 0 example_world = (Inr m, w') \<and>
      GetOutput (image_reader (files example_env ''grayscott.vti'')) = Some example_image \<and>
      dimensions m = (32, 32, 1) \<and> number_of_chemicals m = 3 \<and>
      filename m = ''grayscott.vti'' \<and> modified m = False) \<and>
   (\<exists>m w'. CreateFromImageDataFile example_env ''grayscott.vti'' False 0 0
              (example_world\<lparr>lc_numeric := ''C''\<rparr>) = (Inr m, w') \<and>
      modified m = True)"
proof -
  obtain r w' where run:
    "CreateFromFile example_env ''grayscott.vti'' False 0 0 example_world = (r, w')"
    by (cases "CreateFromFile example_env ''grayscott.vti'' False 0 0 example_world")
  have "\<exists>m. r = Inr m"
    using run by (auto simp: run_defs example_defs)
  then obtain m where r: "r = Inr m" by blast
  have t: "OutputType (files example_env ''grayscott.vti'') = VTK_IMAGE_DATA"
    by (simp add: example_defs)
  have sub: "\<exists>m w'. CreateFromImageDataFile example_env ''grayscott.vti'' False 0 0
              (example_world\<lparr>lc_numeric := ''C''\<rparr>) = (Inr m, w') \<and> modified m = True"
    by (simp add: run_defs example_defs)
  from grid_model_attributes [OF t run [unfolded r]] show ?thesis
    using t run r sub
    by (auto simp: example_env_def example_files_def example_file_def example_reader_def
        example_image_def GetNumberOfArrays_def int32_def)
qed

section \<open>Missing data\<close>

text \<open>
  C6. A container without a point-data or cell-data section, and a section without
  arrays, each make the call fail, with two different messages; no model is returned.
\<close>

theorem missing_data_errors:
  "(OutputType (files env path) = VTK_IMAGE_DATA \<and>
    GetOutput (image_reader (files env path)) = Some img \<longrightarrow>
      (PointData img = None \<longrightarrow>
         fst (CreateFromFile env path a p d w) =
           Inl (runtime_error ''Image has no point data.'')) \<and>
      (PointData img = Some [] \<longrightarrow>
         fst (CreateFromFile env path a p d w) =
           Inl (runtime_error ''No arrays in image point data.''))) \<and>
   (OutputType (files env path) = VTK_UNSTRUCTURED_GRID \<and>
    GetOutput (ugrid_reader (files env path)) = Some ugrid \<longrightarrow>
      (CellData ugrid = None \<longrightarrow>
         fst (CreateFromFile env path a p d w) =
           Inl (runtime_error ''Unstructured grid has no cell data.'')) \<and>
      (CellData ugrid = Some [] \<longrightarrow>
         fst (CreateFromFile env path a p d w) =
           Inl (runtime_error ''No arrays in unstructured grid cell data.''))) \<and>
   runtime_error ''Image has no point data.'' \<noteq>
     runtime_error ''No arrays in image point data.'' \<and>
   runtime_error ''Unstructured grid has no cell data.'' \<noteq>
     runtime_error ''No arrays in unstructured grid cell data.''"
  by (auto simp: CreateFromFile_image CreateFromFile_ugrid CreateFromImageDataFile_def
      CreateFromUnstructuredGridFile_def GetArray_def Let_def)

theorem missing_data_errors_witness:
  "OutputType (files example_env ''bare.vti'') = VTK_IMAGE_DATA \<and>
   GetOutput (image_reader (files example_env ''bare.vti'')) =
     Some (example_image\<lparr>PointData := None\<rparr>) \<and>
   fst (CreateFromFile example_env ''bare.vti'' False 0 0 example_world) =
     Inl (runtime_error ''Image has no point data.'') \<and>
   OutputType (files example_env ''empty.vti'') = VTK_IMAGE_DATA \<and>
   GetOutput (image_reader (files example_env ''empty.vti'')) =
     Some (example_image\<lparr>PointData := Some []\<rparr>) \<and>
   fst (CreateFromFile example_env ''empty.vti'' False 0 0 example_world) =
     Inl (runtime_error ''No arrays in image point data.'') \<and>
   OutputType (files example_env ''bare.vtu'') = VTK_UNSTRUCTURED_GRID \<and>
   GetOutput (ugrid_reader (files example_env ''bare.vtu'')) =
     Some (example_mesh\<lparr>CellData := None\<rparr>) \<and>
   fst (CreateFromFile example_env ''bare.vtu'' False 0 0 example_world) =
     Inl (runtime_error ''Unstructured grid has no cell data.'') \<and>
   OutputType (files example_env ''empty.vtu'') = VTK_UNSTRUCTURED_GRID \<and>
   GetOutput (ugrid_reader (files example_env ''empty.vtu'')) =
     Some (example_mesh\<lparr>CellData := Some []\<rparr>) \<and>
   fst (CreateFromFile example_env ''empty.vtu'' False 0 0 example_world) =
     Inl (runtime_error ''No arrays in unstructured grid cell data.'')"
  using missing_data_errors [of example_env "''bare.vti''" "example_image\<lparr>PointData := None\<rparr>"
      False 0 0 example_world "example_mesh\<lparr>CellData := None\<rparr>"]
    missing_data_errors [of example_env "''empty.vti''" "example_image\<lparr>PointData := Some []\<rparr>"
      False 0 0 example_world "example_mesh\<lparr>CellData := None\<rparr>"]
    missing_data_errors [of example_env "''bare.vtu''" "example_image\<lparr>PointData := None\<rparr>"
      False 0 0 example_world "example_mesh\<lparr>CellData := None\<rparr>"]
    missing_data_errors [of example_env "''empty.vtu''" "example_image\<lparr>PointData := None\<rparr>"
      False 0 0 example_world "example_mesh\<lparr>CellData := Some []\<rparr>"]
  by (simp add: example_env_def example_files_def example_file_def example_reader_def
      example_image_def example_mesh_def VTK_IMAGE_DATA_def VTK_UNSTRUCTURED_GRID_def)

section \<open>The render-settings overlay\<close>

lemma fold_overlay_other:
  "n \<notin> Name ` set cs \<Longrightarrow> fold (\<lambda>c s. s(Name c \<mapsto> Attributes c)) cs store n = store n"
  by (induction cs arbitrary: store) auto

lemma OverwriteFromXML_other:
  "n \<notin> Name ` set (NestedElements x) \<Longrightarrow> OverwriteFromXML store x n = store n"
  by (simp add: OverwriteFromXML_def fold_overlay_other)

lemma overlay_render_settings_returns: "fst (overlay_render_settings rd w) = Inr ()"
  by (simp add: overlay_render_settings_def split: option.splits)

lemma CreateFromImageDataFile_render_settings:
  assumes "CreateFromImageDataFile env path a p d w = (Inr m, w')"
  shows "render_settings w' =
     (case FindNestedElementWithName (GetRDElement (image_reader (files env path)))
             ''render_settings'' of
        None \<Rightarrow> render_settings w
      | Some x \<Rightarrow> OverwriteFromXML (render_settings w) x)"
  using assms unfolding CreateFromImageDataFile_def
  by (auto simp: Let_def returns_def split: option.splits if_splits prod.splits
      elim!: step_elims)

lemma CreateFromUnstructuredGridFile_render_settings:
  assumes "CreateFromUnstructuredGridFile env path a p d w = (Inr m, w')"
  shows "render_settings w' =
     (case FindNestedElementWithName (GetRDElement (ugrid_reader (files env path)))
             ''render_settings'' of
        None \<Rightarrow> render_settings w
      | Some x \<Rightarrow> OverwriteFromXML (render_settings w) x)"
  using assms unfolding CreateFromUnstructuredGridFile_def
  by (auto simp: Let_def returns_def split: option.splits if_splits prod.splits
      elim!: step_elims)

lemma CreateFromFile_render_settings:
  assumes "CreateFromFile env path a p d w = (Inr m, w')"
  shows "render_settings w' =
     (case FindNestedElementWithName
             (if OutputType (files env path) = VTK_IMAGE_DATA
              then GetRDElement (image_reader (files env path))
              else GetRDElement (ugrid_reader (files env path))) ''render_settings'' of
        None \<Rightarrow> render_settings w
      | Some x \<Rightarrow> OverwriteFromXML (render_settings w) x)"
proof -
  consider (image) "OutputType (files env path) = VTK_IMAGE_DATA"
    | (ugrid) "OutputType (files env path) = VTK_UNSTRUCTURED_GRID"
        "OutputType (files env path) \<noteq> VTK_IMAGE_DATA"
    | (other) "OutputType (files env path) \<noteq> VTK_IMAGE_DATA"
        "OutputType (files env path) \<noteq> VTK_UNSTRUCTURED_GRID"
    by blast
  then show ?thesis
  proof cases
    case image
    obtain r w1 where run:
      "CreateFromImageDataFile env path a p d (w\<lparr>lc_numeric := ''C''\<rparr>) = (r, w1)"
      by (cases "CreateFromImageDataFile env path a p d (w\<lparr>lc_numeric := ''C''\<rparr>)")
    from assms image run obtain m1 where r: "r = Inr m1"
      and w': "w' = log_call (Call_SetModified False)
                 (log_call (Call_SetFilename path) (w1\<lparr>lc_numeric := ''C''\<rparr>))"
      by (cases r) (auto simp: CreateFromFile_image)
    from CreateFromImageDataFile_render_settings [OF run [unfolded r]] w' image
    show ?thesis by (simp split: option.splits)
  next
    case ugrid
    obtain r w1 where run:
      "CreateFromUnstructuredGridFile env path a p d (w\<lparr>lc_numeric := ''C''\<rparr>) = (r, w1)"
      by (cases "CreateFromUnstructuredGridFile env path a p d (w\<lparr>lc_numeric := ''C''\<rparr>)")
    from assms ugrid run obtain m1 where r: "r = Inr m1"
      and w': "w' = log_call (Call_SetModified False)
                 (log_call (Call_SetFilename path) (w1\<lparr>lc_numeric := ''C''\<rparr>))"
      by (cases r) (auto simp: CreateFromFile_ugrid)
    from CreateFromUnstructuredGridFile_render_settings [OF run [unfolded r]] w' ugrid
    show ?thesis by (simp split: option.splits)
  next
    case other
    with assms show ?thesis by (simp add: CreateFromFile_other)
  qed
qed

text \<open>
  C7. After a call that returns a model: if the descriptor has a nested
  \<open>render_settings\<close> element, the caller's store is the old store overlaid with
  that element, and every name the element does not mention keeps its value; if it has
  none, the store is the old store. The overlay step itself never raises.
\<close>

theorem render_settings_overlay:
  assumes "CreateFromFile env path a p d w = (Inr m, w')"
    and "rd = (if OutputType (files env path) = VTK_IMAGE_DATA
               then GetRDElement (image_reader (files env path))
               else GetRDElement (ugrid_reader (files env path)))"
  shows "(FindNestedElementWithName rd ''render_settings'' = None \<longrightarrow>
            render_settings w' = render_settings w) \<and>
         (\<forall>x. FindNestedElementWithName rd ''render_settings'' = Some x \<longrightarrow>
            render_settings w' = OverwriteFromXML (render_settings w) x \<and>
            (\<forall>n. n \<notin> Name ` set (NestedElements x) \<longrightarrow>
               render_settings w' n = render_settings w n)) \<and>
         fst (overlay_render_settings rd w) = Inr ()"
  using CreateFromFile_render_settings [OF assms(1)] assms(2)
  by (auto simp: OverwriteFromXML_other overlay_render_settings_returns)

theorem render_settings_overlay_witness:
  "(\<exists>m w'. CreateFromFile example_env ''grayscott.vti'' False 0 0 example_world = (Inr m, w') \<and>
      FindNestedElementWithName (GetRDElement (image_reader (files example_env ''grayscott.vti'')))
        ''render_settings'' =
        Some (vtkXMLDataElement ''render_settings'' []
               [vtkXMLDataElement ''timesteps_per_render'' [(''value'', ''100'')] []]) \<and>
      render_settings w' ''timesteps_per_render'' = Some [(''value'', ''100'')] \<and>
      render_settings w' ''show_color_scale'' =
        render_settings example_world ''show_color_scale'')"
proof -
  obtain r w' where run:
    "CreateFromFile example_env ''grayscott.vti'' False 0 0 example_world = (r, w')"
    by (cases "CreateFromFile example_env ''grayscott.vti'' False 0 0 example_world")
  have "\<exists>m. r = Inr m"
    using run by (auto simp: run_defs example_defs)
  then obtain m where r: "r = Inr m" by blast
  have f: "FindNestedElementWithName
        (GetRDElement (image_reader (files example_env ''grayscott.vti''))) ''render_settings'' =
        Some (vtkXMLDataElement ''render_settings'' []
               [vtkXMLDataElement ''timesteps_per_render'' [(''value'', ''100'')] []])"
    by (simp add: example_defs FindNestedElementWithName_def)
  have t: "OutputType (files example_env ''grayscott.vti'') = VTK_IMAGE_DATA"
    by (simp add: example_defs)
  from render_settings_overlay [OF run [unfolded r] refl] f t
  have "render_settings w' =
      OverwriteFromXML (render_settings example_world)
        (vtkXMLDataElement ''render_settings'' []
               [vtkXMLDataElement ''timesteps_per_render'' [(''value'', ''100'')] []])"
    and "render_settings w' ''show_color_scale'' =
      render_settings example_world ''show_color_scale''"
    by auto
  with run r f show ?thesis
    by (simp add: OverwriteFromXML_def)
qed

section \<open>Initial-pattern generation comes last\<close>

lemma CreateFromImageDataFile_log:
  assumes "CreateFromImageDataFile env path a p d w = (r, w')"
    and "calls w' = calls w @ tr"
  shows "(Call_GenerateInitialPattern \<in> set tr \<longrightarrow>
            ShouldGenerateInitialPatternWhenLoading (image_reader (files env path)) \<and>
            (\<exists>c ov img pd.
               GetOutput (image_reader (files env path)) = Some img \<and>
               PointData img = Some pd \<and>
               (ov = [] \<or> ov = [Call_OverwriteFromXML]) \<and>
               tr = [Enter_CreateFromImageDataFile, Call_make_unique c, Call_InitializeFromXML] @
                    ov @
                    [Call_SetDimensions (fst (Dimensions img)) (fst (snd (Dimensions img)))
                       (snd (snd (Dimensions img))),
                     Call_SetNumberOfChemicals
                       (int32 (NumberOfScalarComponents img * GetNumberOfArrays pd)),
                     Call_CopyFromImage, Call_GenerateInitialPattern])) \<and>
         ((\<exists>m. r = Inr m) \<and>
          ShouldGenerateInitialPatternWhenLoading (image_reader (files env path)) \<longrightarrow>
            Call_GenerateInitialPattern \<in> set tr)"
  using assms unfolding CreateFromImageDataFile_def
  by (auto simp: Let_def returns_def split: option.splits if_splits prod.splits
      elim!: step_elims)

lemma CreateFromUnstructuredGridFile_log:
  assumes "CreateFromUnstructuredGridFile env path a p d w = (r, w')"
    and "calls w' = calls w @ tr"
  shows "(Call_GenerateInitialPattern \<in> set tr \<longrightarrow>
            ShouldGenerateInitialPatternWhenLoading (ugrid_reader (files env path)) \<and>
            (\<exists>c ov.
               (ov = [] \<or> ov = [Call_OverwriteFromXML]) \<and>
               tr = [Enter_CreateFromUnstructuredGridFile, Call_make_unique c,
                     Call_InitializeFromXML, Call_CopyFromMesh] @
                    ov @ [Call_GenerateInitialPattern])) \<and>
         ((\<exists>m. r = Inr m) \<and>
          ShouldGenerateInitialPatternWhenLoading (ugrid_reader (files env path)) \<longrightarrow>
            Call_GenerateInitialPattern \<in> set tr)"
  using assms unfolding CreateFromUnstructuredGridFile_def
  by (auto simp: Let_def returns_def split: option.splits if_splits prod.splits
      elim!: step_elims)

text \<open>
  C8. Let \<open>tr\<close> be what a sub-constructor adds to the log of calls, whether it returns
  or raises. \<open>GenerateInitialPattern\<close> is in \<open>tr\<close> only if the descriptor asks for
  it, and then it is the last call, made once, after the model was sized: for an image
  after \<open>SetDimensions\<close>, \<open>SetNumberOfChemicals\<close> (with the sizes of the container) and
  \<open>CopyFromImage\<close>; for a mesh after \<open>CopyFromMesh\<close>. A call that raises ends the
  sub-constructor, so every earlier call in \<open>tr\<close> had returned. A sub-constructor that
  returns a model for a descriptor that asks for the pattern has made the call.
\<close>

theorem initial_pattern_after_sizing:
  "(CreateFromImageDataFile env path a p d w = (r, w') \<and> calls w' = calls w @ tr \<longrightarrow>
      (Call_GenerateInitialPattern \<in> set tr \<longrightarrow>
         ShouldGenerateInitialPatternWhenLoading (image_reader (files env path)) \<and>
         (\<exists>c ov img pd.
            GetOutput (image_reader (files env path)) = Some img \<and>
            PointData img = Some pd \<and>
            (ov = [] \<or> ov = [Call_OverwriteFromXML]) \<and>
            tr = [Enter_CreateFromImageDataFile, Call_make_unique c, Call_InitializeFromXML] @
                 ov @
                 [Call_SetDimensions (fst (Dimensions img)) (fst (snd (Dimensions img)))
                    (snd (snd (Dimensions img))),
                  Call_SetNumberOfChemicals
                    (int32 (NumberOfScalarComponents img * GetNumberOfArrays pd)),
                  Call_CopyFromImage, Call_GenerateInitialPattern])) \<and>
      ((\<exists>m. r = Inr m) \<and>
       ShouldGenerateInitialPatternWhenLoading (image_reader (files env path)) \<longrightarrow>
         Call_GenerateInitialPattern \<in> set tr)) \<and>
   (CreateFromUnstructuredGridFile env path a p d w = (r, w') \<and> calls w' = calls w @ tr \<longrightarrow>
      (Call_GenerateInitialPattern \<in> set tr \<longrightarrow>
         ShouldGenerateInitialPatternWhenLoading (ugrid_reader (files env path)) \<and>
         (\<exists>c ov.
            (ov = [] \<or> ov = [Call_OverwriteFromXML]) \<and>
            tr = [Enter_CreateFromUnstructuredGridFile, Call_make_unique c,
                  Call_InitializeFromXML, Call_CopyFromMesh] @
                 ov @ [Call_GenerateInitialPattern])) \<and>
      ((\<exists>m. r = Inr m) \<and>
       ShouldGenerateInitialPatternWhenLoading (ugrid_reader (files env path)) \<longrightarrow>
         Call_GenerateInitialPattern \<in> set tr))"
  using CreateFromImageDataFile_log [of env path a p d w r w' tr]
    CreateFromUnstructuredGridFile_log [of env path a p d w r w' tr]
  by blast

theorem initial_pattern_after_sizing_witness:
  "(\<exists>m w'. CreateFromImageDataFile example_env ''grayscott.vti'' False 0 0 example_world =
             (Inr m, w') \<and>
      calls w' = calls example_world @
        [Enter_CreateFromImageDataFile, Call_make_unique GrayScottImageRD,
         Call_InitializeFromXML, Call_OverwriteFromXML, Call_SetDimensions 32 32 1,
         Call_SetNumberOfChemicals 3, Call_CopyFromImage, Call_GenerateInitialPattern]) \<and>
   ShouldGenerateInitialPatternWhenLoading (image_reader (files example_env ''grayscott.vti'')) \<and>
   (\<exists>m w'. CreateFromUnstructuredGridFile example_env ''grayscott.vtu'' False 0 0 example_world =
             (Inr m, w') \<and>
      calls w' = calls example_world @
        [Enter_CreateFromUnstructuredGridFile, Call_make_unique GrayScottMeshRD,
         Call_InitializeFromXML, Call_CopyFromMesh, Call_OverwriteFromXML,
         Call_GenerateInitialPattern]) \<and>
   ShouldGenerateInitialPatternWhenLoading (ugrid_reader (files example_env ''grayscott.vtu''))"
  using initial_pattern_after_sizing [of example_env "''grayscott.vti''" False 0 0 example_world]
    initial_pattern_after_sizing [of example_env "''grayscott.vtu''" False 0 0 example_world]
  by (simp add: run_defs example_defs)

section \<open>The name tag of formula and kernel rules\<close>

lemma map_of_with_name:
  "k \<noteq> ''name'' \<Longrightarrow>
     map_of (map (\<lambda>(k, v). if k = ''name'' then (k, n) else (k, v)) xs) k = map_of xs k"
  by (induction xs) auto

lemma GetType_with_name_tag [simp]:
  "GetType (r\<lparr>GetRDElement := with_name_tag n (GetRDElement r)\<rparr>) = GetType r"
  by (simp add: GetType_def GetAttribute_def with_name_tag_def map_of_with_name)

lemma overlay_render_settings_with_name_tag [simp]:
  "overlay_render_settings (with_name_tag n e) = overlay_render_settings e"
  by (rule ext)
    (simp add: overlay_render_settings_def FindNestedElementWithName_def with_name_tag_def)









section \<open>Failures before the overlay\<close>

text \<open>
  C10. When the output type is not recognised, or the sub-constructor fails one of its
  checks before hydration (unreadable container, missing data section, no arrays,
  unknown inbuilt name, OpenCL not available, unsupported rule type), the call raises
  the error of that check and the caller's render-settings store is as it was.
\<close>

theorem early_failure_keeps_render_settings:
  assumes "(OutputType (files env path) \<noteq> VTK_IMAGE_DATA \<and>
            OutputType (files env path) \<noteq> VTK_UNSTRUCTURED_GRID) \<or>
           (OutputType (files env path) = VTK_IMAGE_DATA \<and>
            fails_before_hydration (image_reader (files env path)) PointData a) \<or>
           (OutputType (files env path) = VTK_UNSTRUCTURED_GRID \<and>
            fails_before_hydration (ugrid_reader (files env path)) CellData a)"
  shows "\<exists>e w'. CreateFromFile env path a p d w = (Inl e, w') \<and>
           (e \<in> early_errors env (image_reader (files env path)) \<or>
            e \<in> early_errors env (ugrid_reader (files env path))) \<and>
           render_settings w' = render_settings w"
  using assms
proof (elim disjE conjE)
  assume "OutputType (files env path) \<noteq> VTK_IMAGE_DATA"
    "OutputType (files env path) \<noteq> VTK_UNSTRUCTURED_GRID"
  then show ?thesis
    by (simp add: CreateFromFile_other early_errors_def)
next
  assume t: "OutputType (files env path) = VTK_IMAGE_DATA"
    and f: "fails_before_hydration (image_reader (files env path)) PointData a"
  from CreateFromImageDataFile_early [OF f, of p d "w\<lparr>lc_numeric := ''C''\<rparr>"]
  show ?thesis
    by (auto simp: CreateFromFile_image [OF t])
next
  assume t: "OutputType (files env path) = VTK_UNSTRUCTURED_GRID"
    and f: "fails_before_hydration (ugrid_reader (files env path)) CellData a"
  from CreateFromUnstructuredGridFile_early [OF f, of p d "w\<lparr>lc_numeric := ''C''\<rparr>"]
  show ?thesis
    by (auto simp: CreateFromFile_ugrid [OF t])
qed

theorem early_failure_keeps_render_settings_witness:
  "OutputType (files example_env ''formula.vti'') = VTK_IMAGE_DATA \<and>
   fails_before_hydration (image_reader (files example_env ''formula.vti'')) PointData False \<and>
   (\<exists>e w'. CreateFromFile example_env ''formula.vti'' False 0 0 example_world = (Inl e, w') \<and>
      render_settings w' = render_settings example_world)"
  using early_failure_keeps_render_settings [of example_env "''formula.vti''" False 0 0
      example_world]
  by (auto simp: fails_before_hydration_def example_defs)

end
